theory Spec2Isabelle
  imports Main
begin

section \<open>The session-key extractor of scripts/extract-session-key.py\<close>

text \<open>
  The script imports \<open>browser_cookie3\<close>, calls its four browser functions in a fixed
  order, scans the cookies each one returns for the names \<open>sessionKey\<close> and
  \<open>lastActiveOrg\<close>, and prints one JSON object. Everything outside the script is data of
  the model: whether the import succeeds, and what each browser function does when it is
  called (raise, or return a cookie jar whose iteration yields cookies and may itself raise).
\<close>

subsection \<open>Data\<close>

text \<open>
  A cookie as the script reads it: the attributes \<open>cookie.name\<close> and \<open>cookie.value\<close>
  (the field \<open>val\<close>).
\<close>

record cookie =
  name :: string
  val :: string

text \<open>
  The exceptions the two \<open>except\<close> clauses of the loop tell apart: \<open>PermissionError\<close>,
  and any other subclass of \<open>Exception\<close>. Signals that are not subclasses of
  \<open>Exception\<close>, such as a keyboard interrupt, are outside the model.
\<close>

datatype exn = PermissionError | OtherException

text \<open>
  What a call \<open>browser_func(domain_name='.claude.ai')\<close> does: it raises, or it returns a
  cookie jar. Iterating the jar yields the listed cookies in order and then either ends
  (\<open>None\<close>) or raises (\<open>Some e\<close>), so a jar that raises after its k-th cookie is the jar
  of its first k cookies with \<open>Some e\<close>.
\<close>

datatype cookiejar = Raises exn | Jar "cookie list" "exn option"

type_synonym browser_func = "string \<Rightarrow> cookiejar"

text \<open>The module \<open>browser_cookie3\<close>, as far as the script uses it.\<close>

record browser_cookie3 =
  chrome :: browser_func
  firefox :: browser_func
  edge :: browser_func
  chromium :: browser_func

text \<open>
  A dict of strings in insertion order, which is what \<open>json.dumps\<close> is given; one printed
  line is the serialisation of one such dict.
\<close>

type_synonym json = "(string \<times> string) list"

text \<open>
  The mutable state: the two local variables the loop assigns, the lines written to standard
  output, and (as a trace, not a variable of the script) the names of the browsers whose
  function has been called.
\<close>

record state =
  session_key :: "string option"
  org_id :: "string option"
  stdout :: "json list"
  opened :: "string list"

text \<open>How the function ends: by returning, or by \<open>sys.exit(n)\<close>.\<close>

datatype status = Return | SysExit int

fun exit_code :: "status \<Rightarrow> int" where
  "exit_code Return = 0"
| "exit_code (SysExit n) = n"

subsection \<open>The script\<close>

text \<open>
  \<open>print(json.dumps(d))\<close>: one more line on standard output. Writing is taken to succeed.
\<close>

definition print :: "json \<Rightarrow> state \<Rightarrow> state" where
  "print d s = s\<lparr>stdout := stdout s @ [d]\<rparr>"

text \<open>Python's truth value of a variable holding \<open>None\<close> or a string.\<close>

fun truthy :: "string option \<Rightarrow> bool" where
  "truthy None = False"
| "truthy (Some v) = (v \<noteq> [])"

text \<open>Lines 44 to 48: the loop over the cookies of one jar.\<close>

fun scan :: "cookie list \<Rightarrow> state \<Rightarrow> state" where
  "scan [] s = s"
| "scan (c # cj) s =
     (if name c = ''sessionKey'' then scan cj (s\<lparr>session_key := Some (val c)\<rparr>)
      else if name c = ''lastActiveOrg'' then scan cj (s\<lparr>org_id := Some (val c)\<rparr>)
      else scan cj s)"

text \<open>Lines 51 to 56: the dict of a success.\<close>

definition result :: "string \<Rightarrow> string \<Rightarrow> string option \<Rightarrow> json" where
  "result k nm org =
     [(''sessionKey'', k), (''browser'', nm)] @
     (case org of
        None \<Rightarrow> []
      | Some v \<Rightarrow> if v \<noteq> [] then [(''organizationId'', v)] else [])"

definition not_found :: json where
  "not_found = [(''error'', ''No Claude.ai session found in any browser'')]"

definition not_installed :: json where
  "not_installed =
     [(''error'', ''browser_cookie3 not installed''),
      (''install'', ''pip install browser-cookie3'')]"

text \<open>
  Lines 38 to 68: the loop over the browsers, and what follows it. Both \<open>except\<close> clauses
  continue with the next browser. The two variables are assigned \<open>None\<close> after the jar has
  been returned, so a call that raises leaves them as they were.
\<close>

fun probe :: "(string \<times> browser_func) list \<Rightarrow> state \<Rightarrow> state \<times> status" where
  "probe [] s = (print not_found s, SysExit 1)"
| "probe ((nm, browser_func) # browsers) s =
     (let s1 = s\<lparr>opened := opened s @ [nm]\<rparr> in
      case browser_func ''.claude.ai'' of
        Raises e \<Rightarrow>
          (case e of
             PermissionError \<Rightarrow> probe browsers s1
           | OtherException \<Rightarrow> probe browsers s1)
      | Jar cj err \<Rightarrow>
          (let s2 = scan cj (s1\<lparr>session_key := None, org_id := None\<rparr>) in
           case err of
             Some e \<Rightarrow>
               (case e of
                  PermissionError \<Rightarrow> probe browsers s2
                | OtherException \<Rightarrow> probe browsers s2)
           | None \<Rightarrow>
               (case session_key s2 of
                  None \<Rightarrow> probe browsers s2
                | Some k \<Rightarrow>
                    if k \<noteq> [] then (print (result k nm (org_id s2)) s2, Return)
                    else probe browsers s2)))"

text \<open>Lines 31 to 36.\<close>

definition browsers :: "browser_cookie3 \<Rightarrow> (string \<times> browser_func) list" where
  "browsers m =
     [(''chrome'', chrome m), (''firefox'', firefox m),
      (''edge'', edge m), (''chromium'', chromium m)]"

text \<open>At the start nothing has been printed or opened, and the two variables are unbound.\<close>

definition init :: state where
  "init = \<lparr>session_key = None, org_id = None, stdout = [], opened = []\<rparr>"

text \<open>
  The whole function. The argument is what \<open>import browser_cookie3\<close> gives: \<open>None\<close>
  when it raises \<open>ImportError\<close>, the module otherwise.
\<close>

definition extract_session_key :: "browser_cookie3 option \<Rightarrow> state \<times> status" where
  "extract_session_key imported =
     (case imported of
        None \<Rightarrow> (print not_installed init, SysExit 1)
      | Some m \<Rightarrow> probe (browsers m) init)"

subsection \<open>What the spec calls finding a value\<close>

text \<open>
  The value of the last cookie of a jar that has the given name, if there is one: defined on
  the list of cookies, without the loop.
\<close>

definition last_value :: "string \<Rightarrow> cookie list \<Rightarrow> string option" where
  "last_value n cj =
     (case rev (filter (\<lambda>c. name c = n) cj) of
        [] \<Rightarrow> None
      | c # _ \<Rightarrow> Some (val c))"

text \<open>
  A browser yields a session key when its function returns a jar, the iteration of the jar
  ends without raising, and the last \<open>sessionKey\<close> cookie of the jar has a value other
  than the empty string.
\<close>

definition yields :: "cookiejar \<Rightarrow> bool" where
  "yields j =
     (case j of
        Raises e \<Rightarrow> False
      | Jar cj err \<Rightarrow> err = None \<and> truthy (last_value ''sessionKey'' cj))"

text \<open>The reading of "the store contains a record named n" on the jar itself.\<close>

definition contains_record :: "string \<Rightarrow> cookiejar \<Rightarrow> bool" where
  "contains_record n j =
     (case j of
        Raises e \<Rightarrow> False
      | Jar cj err \<Rightarrow> n \<in> set (map name cj))"

text \<open>The keys of a printed dict.\<close>

definition keys :: "json \<Rightarrow> string list" where
  "keys d = map fst d"

subsection \<open>What a run shows\<close>

text \<open>
  What can be seen of a run from outside: the lines printed, the browsers opened, and how
  the function ended. The two local variables are not part of it.
\<close>

definition visible :: "state \<times> status \<Rightarrow> json list \<times> string list \<times> status" where
  "visible r = (stdout (fst r), opened (fst r), snd r)"

text \<open>The same without the trace of the browsers opened.\<close>

definition shown :: "state \<times> status \<Rightarrow> json list \<times> status" where
  "shown r = (stdout (fst r), snd r)"

text \<open>
  The part of one iteration that follows the scan of a jar, as a function of the state the
  scan leaves: a name for the tail of the second equation of \<open>probe\<close>, used in the proofs.
\<close>

definition after_scan :: "string \<Rightarrow> exn option \<Rightarrow> (string \<times> browser_func) list \<Rightarrow> state \<Rightarrow> state \<times> status" where
  "after_scan nm err bs s2 =
     (case (err, session_key s2) of
        (None, Some k) \<Rightarrow>
          if k \<noteq> [] then (print (result k nm (org_id s2)) s2, Return) else probe bs s2
      | _ \<Rightarrow> probe bs s2)"

subsection \<open>The script with a library that writes and a module that may be incomplete\<close>

text \<open>
  The definitions above take the library as silent and complete. Two things the script does
  not control are added here. The library's code runs in the same process and may write to
  the same standard output; nothing in the script redirects it, so a call of a browser
  function gives the lines it wrote together with what it did. And the import may raise
  something else than \<open>ImportError\<close>, or give a module that lacks one of the four
  attributes read on lines 32 to 35; neither is inside a \<open>try\<close> that catches it.
\<close>


type_synonym library_func = "string \<Rightarrow> string list \<times> cookiejar"

text \<open>The module as imported: each of the four attributes is there or is missing.\<close>

record library =
  chrome_attr :: "library_func option"
  firefox_attr :: "library_func option"
  edge_attr :: "library_func option"
  chromium_attr :: "library_func option"

text \<open>What \<open>import browser_cookie3\<close> does.\<close>

datatype imported = Module library | Raised_ImportError | Raised_other








subsection \<open>Example installations\<close>

definition always :: "cookiejar \<Rightarrow> browser_func" where
  "always j = (\<lambda>domain_name. j)"

text \<open>Chrome is locked, Firefox and Edge both hold a session key.\<close>

definition locked_then_two :: browser_cookie3 where
  "locked_then_two =
     \<lparr>chrome = always (Raises PermissionError),
      firefox = always (Jar [\<lparr>name = ''sessionKey'', val = ''sk-firefox''\<rparr>,
                             \<lparr>name = ''lastActiveOrg'', val = ''org-1''\<rparr>] None),
      edge = always (Jar [\<lparr>name = ''sessionKey'', val = ''sk-edge''\<rparr>] None),
      chromium = always (Raises OtherException)\<rparr>"

text \<open>Chrome holds a \<open>sessionKey\<close> cookie whose value is empty, Firefox a real one.\<close>

definition empty_key_first :: browser_cookie3 where
  "empty_key_first =
     \<lparr>chrome = always (Jar [\<lparr>name = ''sessionKey'', val = ''''\<rparr>] None),
      firefox = always (Jar [\<lparr>name = ''sessionKey'', val = ''sk-firefox''\<rparr>] None),
      edge = always (Raises OtherException),
      chromium = always (Raises OtherException)\<rparr>"

text \<open>Chrome holds a session key and a \<open>lastActiveOrg\<close> cookie whose value is empty.\<close>

definition empty_org :: browser_cookie3 where
  "empty_org =
     \<lparr>chrome = always (Jar [\<lparr>name = ''sessionKey'', val = ''sk-chrome''\<rparr>,
                            \<lparr>name = ''lastActiveOrg'', val = ''''\<rparr>] None),
      firefox = always (Raises OtherException),
      edge = always (Raises OtherException),
      chromium = always (Raises OtherException)\<rparr>"

text \<open>No browser holds a session key.\<close>

definition no_session :: browser_cookie3 where
  "no_session =
     \<lparr>chrome = always (Raises PermissionError),
      firefox = always (Jar [] None),
      edge = always (Jar [\<lparr>name = ''lastActiveOrg'', val = ''org-1''\<rparr>] None),
      chromium = always (Raises OtherException)\<rparr>"


text \<open>
  The iteration of Chrome's jar raises after both cookies have been yielded; Firefox holds a
  session key and no organization.
\<close>

definition broken_scan :: browser_cookie3 where
  "broken_scan =
     \<lparr>chrome = always (Jar [\<lparr>name = ''sessionKey'', val = ''sk-chrome''\<rparr>,
                            \<lparr>name = ''lastActiveOrg'', val = ''org-chrome''\<rparr>]
                           (Some OtherException)),
      firefox = always (Jar [\<lparr>name = ''sessionKey'', val = ''sk-firefox''\<rparr>] None),
      edge = always (Raises OtherException),
      chromium = always (Raises OtherException)\<rparr>"

text \<open>Chrome holds an organization and no session key, Firefox a session key only.\<close>

definition org_only_first :: browser_cookie3 where
  "org_only_first =
     \<lparr>chrome = always (Jar [\<lparr>name = ''lastActiveOrg'', val = ''org-chrome''\<rparr>] None),
      firefox = always (Jar [\<lparr>name = ''sessionKey'', val = ''sk-firefox''\<rparr>] None),
      edge = always (Raises OtherException),
      chromium = always (Raises OtherException)\<rparr>"






text \<open>
  Chrome holds both cookies twice, first with the empty string as value, then with a real
  value.
\<close>

definition empty_then_real :: browser_cookie3 where
  "empty_then_real =
     \<lparr>chrome = always (Jar [\<lparr>name = ''sessionKey'', val = ''''\<rparr>,
                            \<lparr>name = ''sessionKey'', val = ''sk-real''\<rparr>,
                            \<lparr>name = ''lastActiveOrg'', val = ''''\<rparr>,
                            \<lparr>name = ''lastActiveOrg'', val = ''org-2''\<rparr>] None),
      firefox = always (Jar [\<lparr>name = ''sessionKey'', val = ''sk-firefox''\<rparr>] None),
      edge = always (Raises OtherException),
      chromium = always (Raises OtherException)\<rparr>"

text \<open>Chrome holds a real session key and then an empty one.\<close>

definition real_then_empty :: browser_cookie3 where
  "real_then_empty =
     \<lparr>chrome = always (Jar [\<lparr>name = ''sessionKey'', val = ''sk-old''\<rparr>,
                            \<lparr>name = ''sessionKey'', val = ''''\<rparr>] None),
      firefox = always (Jar [\<lparr>name = ''sessionKey'', val = ''sk-firefox''\<rparr>] None),
      edge = always (Raises OtherException),
      chromium = always (Raises OtherException)\<rparr>"

text \<open>The same without the empty \<open>sessionKey\<close> cookie.\<close>

definition real_only :: browser_cookie3 where
  "real_only =
     \<lparr>chrome = always (Jar [\<lparr>name = ''sessionKey'', val = ''sk-old''\<rparr>] None),
      firefox = always (Jar [\<lparr>name = ''sessionKey'', val = ''sk-firefox''\<rparr>] None),
      edge = always (Raises OtherException),
      chromium = always (Raises OtherException)\<rparr>"

section \<open>Properties\<close>

subsection \<open>The scan of one jar\<close>

lemma last_value_Nil: "last_value n [] = None"
  by (simp add: last_value_def)

lemma last_value_Cons:
  "last_value n (c # cj) =
     (case last_value n cj of
        None \<Rightarrow> if name c = n then Some (val c) else None
      | Some v \<Rightarrow> Some v)"
  by (cases "rev (filter (\<lambda>c. name c = n) cj)") (simp_all add: last_value_def)


lemma scan_stdout: "stdout (scan cj s) = stdout s"
  by (induction cj arbitrary: s) simp_all

lemma scan_opened: "opened (scan cj s) = opened s"
  by (induction cj arbitrary: s) simp_all

lemma scan_session_key:
  "session_key (scan cj s) =
     (case last_value ''sessionKey'' cj of None \<Rightarrow> session_key s | Some v \<Rightarrow> Some v)"
  by (induction cj arbitrary: s) (simp_all add: last_value_Nil last_value_Cons split: option.splits)

lemma scan_org_id:
  "org_id (scan cj s) =
     (case last_value ''lastActiveOrg'' cj of None \<Rightarrow> org_id s | Some v \<Rightarrow> Some v)"
  by (induction cj arbitrary: s) (simp_all add: last_value_Nil last_value_Cons split: option.splits)

lemma scan_opened_update:
  fixes s :: state
  shows "scan cj (s\<lparr>opened := ops\<rparr>) = (scan cj s)\<lparr>opened := ops\<rparr>"
  by (rule state.equality)
     (simp_all add: scan_stdout scan_opened scan_session_key scan_org_id split: option.splits)

subsection \<open>One iteration, and the loop\<close>

lemma probe_Raises:
  "f ''.claude.ai'' = Raises e \<Longrightarrow>
   probe ((nm, f) # bs) s = probe bs (s\<lparr>opened := opened s @ [nm]\<rparr>)"
  by (cases e) simp_all

lemma probe_Jar:
  "f ''.claude.ai'' = Jar cj err \<Longrightarrow>
   probe ((nm, f) # bs) s =
     after_scan nm err bs
       (scan cj ((s\<lparr>opened := opened s @ [nm]\<rparr>)\<lparr>session_key := None, org_id := None\<rparr>))"
  by (auto simp: after_scan_def Let_def split: option.splits exn.splits)

lemma probe_visible:
  fixes s s' :: state
  shows "stdout s = stdout s' \<Longrightarrow> opened s = opened s' \<Longrightarrow>
         visible (probe bs s) = visible (probe bs s')"
proof (induction bs arbitrary: s s')
  case Nil
  then show ?case by (simp add: visible_def print_def)
next
  case (Cons b bs)
  obtain nm f where b: "b = (nm, f)" by (cases b)
  let ?s1 = "s\<lparr>opened := opened s @ [nm]\<rparr>"
  let ?s1' = "s'\<lparr>opened := opened s' @ [nm]\<rparr>"
  show ?case
  proof (cases "f ''.claude.ai''")
    case (Raises e)
    have "visible (probe bs ?s1) = visible (probe bs ?s1')"
      using Cons.prems by (intro Cons.IH) simp_all
    then show ?thesis unfolding b probe_Raises [of f, OF Raises] .
  next
    case (Jar cj err)
    have eq: "?s1\<lparr>session_key := None, org_id := None\<rparr> = ?s1'\<lparr>session_key := None, org_id := None\<rparr>"
      using Cons.prems by (cases s; cases s') simp
    show ?thesis unfolding b probe_Jar [of f, OF Jar] eq ..
  qed
qed

lemma visible_eq:
  "visible r = (out, ops, st) \<longleftrightarrow> stdout (fst r) = out \<and> opened (fst r) = ops \<and> snd r = st"
  by (auto simp: visible_def)

lemma shown_visible: "visible r = visible r' \<Longrightarrow> shown r = shown r'"
  by (simp add: visible_def shown_def)

lemma probe_shown:
  fixes s s' :: state
  shows "stdout s = stdout s' \<Longrightarrow> shown (probe bs s) = shown (probe bs s')"
proof (induction bs arbitrary: s s')
  case Nil
  then show ?case by (simp add: shown_def print_def)
next
  case (Cons b bs)
  obtain nm f where b: "b = (nm, f)" by (cases b)
  let ?s1 = "s\<lparr>opened := opened s @ [nm]\<rparr>"
  let ?s1' = "s'\<lparr>opened := opened s' @ [nm]\<rparr>"
  show ?case
  proof (cases "f ''.claude.ai''")
    case (Raises e)
    have "shown (probe bs ?s1) = shown (probe bs ?s1')"
      using Cons.prems by (intro Cons.IH) simp
    then show ?thesis unfolding b probe_Raises [of f, OF Raises] .
  next
    case (Jar cj err)
    let ?r = "?s1\<lparr>session_key := None, org_id := None\<rparr>"
    let ?r' = "?s1'\<lparr>session_key := None, org_id := None\<rparr>"
    have "?r' = ?r\<lparr>opened := opened s' @ [nm]\<rparr>"
      using Cons.prems by (cases s; cases s') simp
    then have s2: "scan cj ?r' = (scan cj ?r)\<lparr>opened := opened s' @ [nm]\<rparr>"
      by (simp only: scan_opened_update)
    have rest: "shown (probe bs ((scan cj ?r)\<lparr>opened := opened s' @ [nm]\<rparr>)) = shown (probe bs (scan cj ?r))"
      by (intro Cons.IH) simp
    have "shown (after_scan nm err bs ((scan cj ?r)\<lparr>opened := opened s' @ [nm]\<rparr>)) =
          shown (after_scan nm err bs (scan cj ?r))"
      using rest by (auto simp: after_scan_def shown_def print_def split: option.splits)
    then show ?thesis unfolding b probe_Jar [of f, OF Jar] s2 by simp
  qed
qed

lemma probe_miss:
  fixes s :: state
  assumes "\<not> yields (f ''.claude.ai'')"
  shows "visible (probe ((nm, f) # bs) s) = visible (probe bs (s\<lparr>opened := opened s @ [nm]\<rparr>))"
proof (cases "f ''.claude.ai''")
  case (Raises e)
  show ?thesis unfolding probe_Raises [of f, OF Raises] ..
next
  case (Jar cj err)
  let ?s2 = "scan cj ((s\<lparr>opened := opened s @ [nm]\<rparr>)\<lparr>session_key := None, org_id := None\<rparr>)"
  have miss: "err \<noteq> None \<or> \<not> truthy (session_key ?s2)"
    using assms Jar by (auto simp: yields_def scan_session_key split: option.splits)
  have "after_scan nm err bs ?s2 = probe bs ?s2"
  proof (cases "session_key ?s2")
    case None
    then show ?thesis by (simp add: after_scan_def split: option.splits)
  next
    case (Some k)
    then show ?thesis using miss by (auto simp: after_scan_def split: option.splits)
  qed
  moreover have "visible (probe bs ?s2) = visible (probe bs (s\<lparr>opened := opened s @ [nm]\<rparr>))"
    by (rule probe_visible) (simp_all add: scan_stdout scan_opened)
  ultimately show ?thesis unfolding probe_Jar [of f, OF Jar] by simp
qed

lemma probe_hit:
  fixes s :: state
  assumes "f ''.claude.ai'' = Jar cj None"
    and "last_value ''sessionKey'' cj = Some k" and "k \<noteq> []"
  shows "visible (probe ((nm, f) # bs) s) =
           (stdout s @ [result k nm (last_value ''lastActiveOrg'' cj)], opened s @ [nm], Return)"
proof -
  let ?s2 = "scan cj ((s\<lparr>opened := opened s @ [nm]\<rparr>)\<lparr>session_key := None, org_id := None\<rparr>)"
  have sk: "session_key ?s2 = Some k"
    using assms(2) by (simp add: scan_session_key)
  have org: "org_id ?s2 = last_value ''lastActiveOrg'' cj"
    by (simp add: scan_org_id split: option.splits)
  have "after_scan nm None bs ?s2 = (print (result k nm (org_id ?s2)) ?s2, Return)"
    using sk assms(3) by (simp add: after_scan_def)
  then show ?thesis
    unfolding probe_Jar [of f, OF assms(1)]
    by (simp add: visible_def print_def org scan_stdout scan_opened)
qed

lemma probe_prefix:
  fixes s :: state
  assumes "\<forall>b\<in>set pre. \<not> yields (snd b ''.claude.ai'')"
  shows "visible (probe (pre @ bs) s) = visible (probe bs (s\<lparr>opened := opened s @ map fst pre\<rparr>))"
  using assms
proof (induction pre arbitrary: s)
  case Nil
  then show ?case by simp
next
  case (Cons b pre)
  obtain nm f where b: "b = (nm, f)" by (cases b)
  have "visible (probe ((nm, f) # pre @ bs) s) =
        visible (probe (pre @ bs) (s\<lparr>opened := opened s @ [nm]\<rparr>))"
    using Cons.prems b by (intro probe_miss) simp
  also have "\<dots> = visible (probe bs ((s\<lparr>opened := opened s @ [nm]\<rparr>)
                   \<lparr>opened := opened (s\<lparr>opened := opened s @ [nm]\<rparr>) @ map fst pre\<rparr>))"
    using Cons.prems by (intro Cons.IH) simp
  finally show ?case by (simp add: b)
qed

lemma probe_none:
  fixes s :: state
  assumes "\<forall>b\<in>set bs. \<not> yields (snd b ''.claude.ai'')"
  shows "visible (probe bs s) = (stdout s @ [not_found], opened s @ map fst bs, SysExit 1)"
  using probe_prefix [OF assms, of "[]" s] by (simp add: visible_def print_def)

lemma probe_first:
  fixes s :: state
  assumes "\<forall>b\<in>set pre. \<not> yields (snd b ''.claude.ai'')"
    and "f ''.claude.ai'' = Jar cj None"
    and "last_value ''sessionKey'' cj = Some k" and "k \<noteq> []"
  shows "visible (probe (pre @ (nm, f) # post) s) =
           (stdout s @ [result k nm (last_value ''lastActiveOrg'' cj)],
            opened s @ map fst pre @ [nm], Return)"
  unfolding probe_prefix [OF assms(1)]
  using probe_hit [of f cj k nm post "s\<lparr>opened := opened s @ map fst pre\<rparr>", OF assms(2-4)]
  by simp

lemma yieldsE:
  assumes "yields j"
  obtains cj k where "j = Jar cj None" and "last_value ''sessionKey'' cj = Some k" and "k \<noteq> []"
proof (cases j)
  case (Raises e)
  then show ?thesis using assms by (simp add: yields_def)
next
  case (Jar cj err)
  then have "err = None" and t: "truthy (last_value ''sessionKey'' cj)"
    using assms by (simp_all add: yields_def)
  then obtain k where "last_value ''sessionKey'' cj = Some k" and "k \<noteq> []"
    by (cases "last_value ''sessionKey'' cj") simp_all
  then show ?thesis using that Jar \<open>err = None\<close> by simp
qed

lemma not_yields_Raises: "j = Raises e \<Longrightarrow> \<not> yields j"
  by (simp add: yields_def)

lemma not_yields_scan_error: "j = Jar cj (Some e) \<Longrightarrow> \<not> yields j"
  by (simp add: yields_def)

lemma not_yields_empty: "j = Jar cj err \<Longrightarrow> last_value ''sessionKey'' cj = Some [] \<Longrightarrow> \<not> yields j"
  by (simp add: yields_def)

lemma probe_outcome:
  fixes s :: state
  shows "(\<exists>pre nm f post cj k. bs = pre @ (nm, f) # post \<and>
            (\<forall>b\<in>set pre. \<not> yields (snd b ''.claude.ai'')) \<and>
            f ''.claude.ai'' = Jar cj None \<and> last_value ''sessionKey'' cj = Some k \<and> k \<noteq> [] \<and>
            visible (probe bs s) =
              (stdout s @ [result k nm (last_value ''lastActiveOrg'' cj)],
               opened s @ map fst pre @ [nm], Return))
         \<or> ((\<forall>b\<in>set bs. \<not> yields (snd b ''.claude.ai'')) \<and>
            visible (probe bs s) = (stdout s @ [not_found], opened s @ map fst bs, SysExit 1))"
proof (cases "\<exists>b\<in>set bs. yields (snd b ''.claude.ai'')")
  case True
  then obtain pre b post where split: "bs = pre @ b # post"
    and hit: "yields (snd b ''.claude.ai'')"
    and pre: "\<forall>b\<in>set pre. \<not> yields (snd b ''.claude.ai'')"
    by (auto simp: split_list_first_prop_iff)
  obtain nm f where b: "b = (nm, f)" by (cases b)
  from hit b obtain cj k where j: "f ''.claude.ai'' = Jar cj None"
    and k: "last_value ''sessionKey'' cj = Some k" "k \<noteq> []"
    by (auto elim: yieldsE)
  show ?thesis
    using split b pre j k probe_first [where f = f and nm = nm and post = post and s = s, OF pre j k] by blast
next
  case False
  then show ?thesis using probe_none [of bs s] by blast
qed

lemma probe_delete:
  fixes s :: state
  assumes "\<not> yields (f ''.claude.ai'')"
  shows "shown (probe (pre @ (nm, f) # post) s) = shown (probe (pre @ post) s)"
proof (induction pre arbitrary: s)
  case Nil
  have "shown (probe ((nm, f) # post) s) = shown (probe post (s\<lparr>opened := opened s @ [nm]\<rparr>))"
    using probe_miss [of f nm post s, OF assms] by (rule shown_visible)
  also have "\<dots> = shown (probe post s)"
    by (rule probe_shown) simp
  finally show ?case by simp
next
  case (Cons b pre)
  obtain n g where b: "b = (n, g)" by (cases b)
  show ?case
  proof (cases "yields (g ''.claude.ai'')")
    case True
    then obtain cj k where j: "g ''.claude.ai'' = Jar cj None"
      and k: "last_value ''sessionKey'' cj = Some k" "k \<noteq> []"
      by (auto elim: yieldsE)
    show ?thesis
      using probe_hit [of g cj k n "pre @ (nm, f) # post" s, OF j k]
            probe_hit [of g cj k n "pre @ post" s, OF j k]
      by (simp add: b shown_def visible_eq)
  next
    case False
    have "shown (probe ((n, g) # pre @ (nm, f) # post) s) =
          shown (probe (pre @ (nm, f) # post) (s\<lparr>opened := opened s @ [n]\<rparr>))"
      using probe_miss [of g n "pre @ (nm, f) # post" s, OF False] by (rule shown_visible)
    also have "\<dots> = shown (probe (pre @ post) (s\<lparr>opened := opened s @ [n]\<rparr>))"
      by (rule Cons.IH)
    also have "\<dots> = shown (probe ((n, g) # pre @ post) s)"
      using probe_miss [of g n "pre @ post" s, OF False] by (rule shown_visible [symmetric])
    finally show ?thesis by (simp add: b)
  qed
qed

subsection \<open>The process and the function\<close>





subsection \<open>The printed dicts\<close>

lemma result_keys:
  "keys (result k nm org) =
     (if truthy org then [''sessionKey'', ''browser'', ''organizationId'']
      else [''sessionKey'', ''browser''])"
  by (cases org) (simp_all add: result_def keys_def)

lemma result_map_of:
  "map_of (result k nm org) ''sessionKey'' = Some k"
  "map_of (result k nm org) ''browser'' = Some nm"
  "map_of (result k nm org) ''organizationId'' = (if truthy org then org else None)"
  by (cases org; simp add: result_def)+

lemma result_not_failure:
  "result k nm org \<noteq> not_found" "result k nm org \<noteq> not_installed"
  by (simp_all add: result_def not_found_def not_installed_def)

lemma browsers_names: "map fst (browsers m) = [''chrome'', ''firefox'', ''edge'', ''chromium'']"
  by (simp add: browsers_def)

lemma browsers_distinct: "distinct (map fst (browsers m))"
  by (simp add: browsers_names)

section \<open>The claims\<close>

text \<open>
  Claim C1 as it is stated: the first browser in the order whose store contains a
  \<open>sessionKey\<close> record determines the output. It fails where Chrome's jar contains a
  \<open>sessionKey\<close> cookie whose value is the empty string and Firefox holds a real key: line
  50 tests the truth value of the captured string, so the run goes on and reports Firefox.
\<close>

theorem empty_session_key_counterexample:
  "contains_record ''sessionKey'' (chrome empty_key_first ''.claude.ai'') \<and>
   visible (extract_session_key (Some empty_key_first)) =
     ([[(''sessionKey'', ''sk-firefox''), (''browser'', ''firefox'')]],
      [''chrome'', ''firefox''], Return)"
  by (simp add: contains_record_def empty_key_first_def always_def extract_session_key_def
      browsers_def init_def visible_def print_def result_def)

text \<open>
  Claim C1, amended. The browsers are probed in the order chrome, firefox, edge, chromium.
  The first browser in this order that yields a session key (its function returns a jar,
  the scan of the jar ends without an error, and the last \<open>sessionKey\<close> cookie scanned
  has a non-empty value) determines the output: the run prints the success dict with that
  value and that browser's name in its \<open>browser\<close> field, returns, and has opened exactly
  the browsers up to and including that one, so none after it.
\<close>

theorem first_yielding_browser_wins:
  assumes "browsers m = pre @ (nm, f) # post"
    and "\<forall>b\<in>set pre. \<not> yields (snd b ''.claude.ai'')"
    and "f ''.claude.ai'' = Jar cj None"
    and "last_value ''sessionKey'' cj = Some k"
    and "k \<noteq> []"
  shows "map fst (browsers m) = [''chrome'', ''firefox'', ''edge'', ''chromium''] \<and>
         visible (extract_session_key (Some m)) =
           ([result k nm (last_value ''lastActiveOrg'' cj)], map fst pre @ [nm], Return) \<and>
         map_of (result k nm (last_value ''lastActiveOrg'' cj)) ''browser'' = Some nm"
  using probe_first [where f = f and nm = nm and post = post and s = init, OF assms(2-5)]
  by (simp add: extract_session_key_def assms(1) [symmetric] browsers_names result_map_of)
     (simp add: init_def)

theorem first_yielding_browser_wins_witness:
  "browsers locked_then_two =
     [(''chrome'', chrome locked_then_two)] @
     (''firefox'', firefox locked_then_two) #
     [(''edge'', edge locked_then_two), (''chromium'', chromium locked_then_two)] \<and>
   \<not> yields (chrome locked_then_two ''.claude.ai'') \<and>
   firefox locked_then_two ''.claude.ai'' =
     Jar [\<lparr>name = ''sessionKey'', val = ''sk-firefox''\<rparr>,
          \<lparr>name = ''lastActiveOrg'', val = ''org-1''\<rparr>] None \<and>
   visible (extract_session_key (Some locked_then_two)) =
     ([[(''sessionKey'', ''sk-firefox''), (''browser'', ''firefox''),
        (''organizationId'', ''org-1'')]],
      [''chrome'', ''firefox''], Return)"
proof -
  let ?cj = "[\<lparr>name = ''sessionKey'', val = ''sk-firefox''\<rparr>,
              \<lparr>name = ''lastActiveOrg'', val = ''org-1''\<rparr>]"
  have h1: "browsers locked_then_two =
     [(''chrome'', chrome locked_then_two)] @
     (''firefox'', firefox locked_then_two) #
     [(''edge'', edge locked_then_two), (''chromium'', chromium locked_then_two)]"
    by (simp add: browsers_def)
  have h2: "\<forall>b\<in>set [(''chrome'', chrome locked_then_two)]. \<not> yields (snd b ''.claude.ai'')"
    by (simp add: locked_then_two_def always_def yields_def)
  have h3: "firefox locked_then_two ''.claude.ai'' = Jar ?cj None"
    by (simp add: locked_then_two_def always_def)
  have h4: "last_value ''sessionKey'' ?cj = Some ''sk-firefox''"
    by (simp add: last_value_def)
  have h5: "''sk-firefox'' \<noteq> []"
    by simp
  have org: "last_value ''lastActiveOrg'' ?cj = Some ''org-1''"
    by (simp add: last_value_def)
  show ?thesis
    using first_yielding_browser_wins [where f = "firefox locked_then_two", OF h1 h2 h3 h4 h5] h1 h2 h3
    by (simp add: org result_def)
qed

text \<open>
  Claim C2. When \<open>import browser_cookie3\<close> raises \<open>ImportError\<close>, the run prints the one
  dict with the fixed error message and the install hint, ends by \<open>sys.exit(1)\<close>, whose
  exit code is not zero, and has called no browser function.
\<close>

theorem missing_capability_fails:
  "visible (extract_session_key None) =
     ([[(''error'', ''browser_cookie3 not installed''),
        (''install'', ''pip install browser-cookie3'')]], [], SysExit 1) \<and>
   exit_code (snd (extract_session_key None)) \<noteq> 0"
  by (simp add: extract_session_key_def visible_def print_def init_def not_installed_def)

text \<open>
  Claim C3. When none of the four browsers yields a session key, all four have been opened,
  the run prints the dict with the fixed "not found" message and ends by \<open>sys.exit(1)\<close>,
  a non-zero exit code. Whenever the printed dict is a success dict, whatever the import
  gave, the function has returned without calling \<open>sys.exit\<close>, which is exit code 0.
\<close>

theorem no_session_anywhere_fails:
  "((\<forall>b\<in>set (browsers m). \<not> yields (snd b ''.claude.ai'')) \<longrightarrow>
      visible (extract_session_key (Some m)) =
        ([[(''error'', ''No Claude.ai session found in any browser'')]],
         [''chrome'', ''firefox'', ''edge'', ''chromium''], SysExit 1) \<and>
      exit_code (snd (extract_session_key (Some m))) \<noteq> 0) \<and>
   (stdout (fst (extract_session_key imported)) = [result k nm org] \<longrightarrow>
      snd (extract_session_key imported) = Return \<and>
      exit_code (snd (extract_session_key imported)) = 0)"
proof (intro conjI impI)
  assume none: "\<forall>b\<in>set (browsers m). \<not> yields (snd b ''.claude.ai'')"
  have v: "visible (extract_session_key (Some m)) =
             ([not_found], map fst (browsers m), SysExit 1)"
    using probe_none [OF none, of init] by (simp add: extract_session_key_def init_def)
  then show "visible (extract_session_key (Some m)) =
        ([[(''error'', ''No Claude.ai session found in any browser'')]],
         [''chrome'', ''firefox'', ''edge'', ''chromium''], SysExit 1)"
    by (simp add: not_found_def browsers_names)
  from v show "exit_code (snd (extract_session_key (Some m))) \<noteq> 0"
    by (simp add: visible_eq)
next
  assume ok: "stdout (fst (extract_session_key imported)) = [result k nm org]"
  have "snd (extract_session_key imported) = Return"
  proof (cases imported)
    case None
    then show ?thesis
      using ok result_not_failure(2) [of k nm org]
      by (simp add: extract_session_key_def print_def init_def)
  next
    case (Some m')
    then show ?thesis
      using ok probe_outcome [of "browsers m'" init] result_not_failure(1) [of k nm org]
      by (auto simp: extract_session_key_def visible_eq init_def)
  qed
  then show "snd (extract_session_key imported) = Return"
    and "exit_code (snd (extract_session_key imported)) = 0"
    by simp_all
qed

theorem no_session_anywhere_fails_witness:
  "\<not> yields (chrome no_session ''.claude.ai'') \<and>
   \<not> yields (firefox no_session ''.claude.ai'') \<and>
   \<not> yields (edge no_session ''.claude.ai'') \<and>
   \<not> yields (chromium no_session ''.claude.ai'') \<and>
   visible (extract_session_key (Some no_session)) =
     ([[(''error'', ''No Claude.ai session found in any browser'')]],
      [''chrome'', ''firefox'', ''edge'', ''chromium''], SysExit 1) \<and>
   stdout (fst (extract_session_key (Some locked_then_two))) =
     [result ''sk-firefox'' ''firefox'' (Some ''org-1'')] \<and>
   snd (extract_session_key (Some locked_then_two)) = Return \<and>
   exit_code (snd (extract_session_key (Some locked_then_two))) = 0"
proof -
  have n: "\<not> yields (chrome no_session ''.claude.ai'')"
    "\<not> yields (firefox no_session ''.claude.ai'')"
    "\<not> yields (edge no_session ''.claude.ai'')"
    "\<not> yields (chromium no_session ''.claude.ai'')"
    by (simp_all add: no_session_def always_def yields_def last_value_def)
  then have h: "\<forall>b\<in>set (browsers no_session). \<not> yields (snd b ''.claude.ai'')"
    by (simp add: browsers_def)
  have ok: "stdout (fst (extract_session_key (Some locked_then_two))) =
              [result ''sk-firefox'' ''firefox'' (Some ''org-1'')]"
    by (simp add: locked_then_two_def always_def extract_session_key_def browsers_def
        init_def print_def)
  show ?thesis
    using no_session_anywhere_fails
      [of no_session "Some locked_then_two" "''sk-firefox''" "''firefox''" "Some ''org-1''"]
      n h ok
    by blast
qed

text \<open>
  Claim C4. When the function of a browser raises, \<open>PermissionError\<close> or any other
  exception, the iteration prints nothing, leaves the variables as they are and goes on
  with the remaining browsers after this one call. For the whole run: the lines printed
  and the way the function ends are those of the same run without that browser in the list.
\<close>

theorem open_failure_skips_browser:
  fixes s :: state
  assumes "f ''.claude.ai'' = Raises e"
  shows "probe ((nm, f) # rest) s = probe rest (s\<lparr>opened := opened s @ [nm]\<rparr>) \<and>
         (browsers m = pre @ (nm, f) # post \<longrightarrow>
            shown (extract_session_key (Some m)) = shown (probe (pre @ post) init))"
  using probe_Raises [of f, OF assms]
        probe_delete [of f pre nm post init, OF not_yields_Raises [OF assms]]
  by (simp add: extract_session_key_def)

theorem open_failure_skips_browser_witness:
  "chrome locked_then_two ''.claude.ai'' = Raises PermissionError \<and>
   browsers locked_then_two =
     [] @ (''chrome'', chrome locked_then_two) #
     [(''firefox'', firefox locked_then_two), (''edge'', edge locked_then_two),
      (''chromium'', chromium locked_then_two)] \<and>
   extract_session_key (Some locked_then_two) =
     probe [(''firefox'', firefox locked_then_two), (''edge'', edge locked_then_two),
            (''chromium'', chromium locked_then_two)]
       (init\<lparr>opened := opened init @ [''chrome'']\<rparr>) \<and>
   shown (extract_session_key (Some locked_then_two)) =
     ([[(''sessionKey'', ''sk-firefox''), (''browser'', ''firefox''),
        (''organizationId'', ''org-1'')]], Return)"
proof -
  let ?rest = "[(''firefox'', firefox locked_then_two), (''edge'', edge locked_then_two),
                (''chromium'', chromium locked_then_two)]"
  have h: "chrome locked_then_two ''.claude.ai'' = Raises PermissionError"
    by (simp add: locked_then_two_def always_def)
  have b: "browsers locked_then_two = [] @ (''chrome'', chrome locked_then_two) # ?rest"
    by (simp add: browsers_def)
  have r: "shown (probe ([] @ ?rest) init) =
     ([[(''sessionKey'', ''sk-firefox''), (''browser'', ''firefox''),
        (''organizationId'', ''org-1'')]], Return)"
    by (simp add: locked_then_two_def always_def init_def print_def result_def shown_def)
  have e: "extract_session_key (Some locked_then_two) =
             probe ((''chrome'', chrome locked_then_two) # ?rest) init"
    by (simp add: extract_session_key_def browsers_def)
  show ?thesis
    using open_failure_skips_browser
      [where f = "chrome locked_then_two" and nm = "''chrome''" and rest = ?rest and s = init
         and m = locked_then_two and pre = "[]" and post = ?rest, OF h] h b r e
    by simp
qed



text \<open>
  Claim C6 as it is stated: a success dict has the \<open>organizationId\<close> field exactly when a
  \<open>lastActiveOrg\<close> value was found in the store. It fails where the store that yields
  the session key holds a \<open>lastActiveOrg\<close> cookie whose value is the empty string: the
  value is found and kept, line 55 tests its truth value, and the field is left out.
\<close>

theorem empty_organization_counterexample:
  "chrome empty_org ''.claude.ai'' =
     Jar [\<lparr>name = ''sessionKey'', val = ''sk-chrome''\<rparr>,
          \<lparr>name = ''lastActiveOrg'', val = ''''\<rparr>] None \<and>
   contains_record ''lastActiveOrg'' (chrome empty_org ''.claude.ai'') \<and>
   last_value ''lastActiveOrg''
     [\<lparr>name = ''sessionKey'', val = ''sk-chrome''\<rparr>,
      \<lparr>name = ''lastActiveOrg'', val = ''''\<rparr>] = Some '''' \<and>
   visible (extract_session_key (Some empty_org)) =
     ([[(''sessionKey'', ''sk-chrome''), (''browser'', ''chrome'')]], [''chrome''], Return)"
  by (simp add: contains_record_def last_value_def empty_org_def always_def
      extract_session_key_def browsers_def init_def visible_def print_def result_def)

text \<open>
  Claim C6, amended. The success dict printed for the first browser that yields a session
  key has the \<open>organizationId\<close> field exactly when the last \<open>lastActiveOrg\<close> cookie of
  that browser's jar has a non-empty value, and then the field holds that value; otherwise
  the dict has no such field.
\<close>

theorem organization_included_iff_nonempty:
  assumes "browsers m = pre @ (nm, f) # post"
    and "\<forall>b\<in>set pre. \<not> yields (snd b ''.claude.ai'')"
    and "f ''.claude.ai'' = Jar cj None"
    and "last_value ''sessionKey'' cj = Some k"
    and "k \<noteq> []"
  shows "\<exists>d. stdout (fst (extract_session_key (Some m))) = [d] \<and>
             map_of d ''browser'' = Some nm \<and>
             (''organizationId'' \<in> set (keys d) \<longleftrightarrow>
                (\<exists>v. last_value ''lastActiveOrg'' cj = Some v \<and> v \<noteq> [])) \<and>
             map_of d ''organizationId'' =
               (if truthy (last_value ''lastActiveOrg'' cj)
                then last_value ''lastActiveOrg'' cj else None)"
proof -
  let ?org = "last_value ''lastActiveOrg'' cj"
  have "visible (extract_session_key (Some m)) =
          ([result k nm ?org], map fst pre @ [nm], Return)"
    using probe_first [where f = f and nm = nm and post = post and s = init, OF assms(2-5)]
    by (simp add: extract_session_key_def assms(1) [symmetric]) (simp add: init_def)
  then have out: "stdout (fst (extract_session_key (Some m))) = [result k nm ?org]"
    by (simp add: visible_eq)
  have "(''organizationId'' \<in> set (keys (result k nm ?org))) = truthy ?org"
    by (simp add: result_keys)
  moreover have "truthy ?org = (\<exists>v. ?org = Some v \<and> v \<noteq> [])"
    by (cases ?org) simp_all
  ultimately show ?thesis
    using out by (simp add: result_map_of)
qed

theorem organization_included_iff_nonempty_witness:
  "browsers locked_then_two =
     [(''chrome'', chrome locked_then_two)] @
     (''firefox'', firefox locked_then_two) #
     [(''edge'', edge locked_then_two), (''chromium'', chromium locked_then_two)] \<and>
   \<not> yields (chrome locked_then_two ''.claude.ai'') \<and>
   firefox locked_then_two ''.claude.ai'' =
     Jar [\<lparr>name = ''sessionKey'', val = ''sk-firefox''\<rparr>,
          \<lparr>name = ''lastActiveOrg'', val = ''org-1''\<rparr>] None \<and>
   (\<exists>d. stdout (fst (extract_session_key (Some locked_then_two))) = [d] \<and>
        ''organizationId'' \<in> set (keys d) \<and>
        map_of d ''organizationId'' = Some ''org-1'')"
proof -
  let ?cj = "[\<lparr>name = ''sessionKey'', val = ''sk-firefox''\<rparr>,
              \<lparr>name = ''lastActiveOrg'', val = ''org-1''\<rparr>]"
  have h1: "browsers locked_then_two =
     [(''chrome'', chrome locked_then_two)] @
     (''firefox'', firefox locked_then_two) #
     [(''edge'', edge locked_then_two), (''chromium'', chromium locked_then_two)]"
    by (simp add: browsers_def)
  have n: "\<not> yields (chrome locked_then_two ''.claude.ai'')"
    by (simp add: locked_then_two_def always_def yields_def)
  then have h2: "\<forall>b\<in>set [(''chrome'', chrome locked_then_two)]. \<not> yields (snd b ''.claude.ai'')"
    by simp
  have h3: "firefox locked_then_two ''.claude.ai'' = Jar ?cj None"
    by (simp add: locked_then_two_def always_def)
  have h4: "last_value ''sessionKey'' ?cj = Some ''sk-firefox''"
    by (simp add: last_value_def)
  have h5: "''sk-firefox'' \<noteq> []"
    by simp
  have org: "last_value ''lastActiveOrg'' ?cj = Some ''org-1''"
    by (simp add: last_value_def)
  obtain d where "stdout (fst (extract_session_key (Some locked_then_two))) = [d]"
    and "''organizationId'' \<in> set (keys d)"
    and "map_of d ''organizationId'' = Some ''org-1''"
    using organization_included_iff_nonempty
      [where f = "firefox locked_then_two", OF h1 h2 h3 h4 h5]
    by (auto simp: org)
  then show ?thesis using h1 n h3 by blast
qed




text \<open>
  Claim C8. What the loop prints, which browsers it opens and how it ends do not depend on
  the values the two variables hold when an iteration starts. In a run that prints a dict
  with the \<open>browser\<close> field \<open>nm\<close>, the function of browser \<open>nm\<close> returned a jar whose
  scan ended without error, the \<open>sessionKey\<close> field is the last \<open>sessionKey\<close> value
  of that jar, and the \<open>organizationId\<close> field, if there is one, is the last
  \<open>lastActiveOrg\<close> value of that same jar. The state of the model has no other variable.
\<close>

theorem accumulators_do_not_leak:
  fixes s :: state
  shows "visible (probe bs (s\<lparr>session_key := a, org_id := b\<rparr>)) = visible (probe bs s) \<and>
         (stdout (fst (extract_session_key (Some m))) = [d] \<and> map_of d ''browser'' = Some nm \<longrightarrow>
            (\<exists>f cj. map_of (browsers m) nm = Some f \<and> f ''.claude.ai'' = Jar cj None \<and>
               map_of d ''sessionKey'' = last_value ''sessionKey'' cj \<and>
               (map_of d ''organizationId'' = None \<or>
                map_of d ''organizationId'' = last_value ''lastActiveOrg'' cj)))"
proof (intro conjI impI)
  show "visible (probe bs (s\<lparr>session_key := a, org_id := b\<rparr>)) = visible (probe bs s)"
    by (rule probe_visible) simp_all
next
  assume a: "stdout (fst (extract_session_key (Some m))) = [d] \<and> map_of d ''browser'' = Some nm"
  have nf: "map_of not_found ''browser'' = None"
    by (simp add: not_found_def)
  from probe_outcome [of "browsers m" init]
  obtain pre n f post cj k where split: "browsers m = pre @ (n, f) # post"
    and j: "f ''.claude.ai'' = Jar cj None"
    and k: "last_value ''sessionKey'' cj = Some k"
    and d: "d = result k n (last_value ''lastActiveOrg'' cj)"
    using a nf by (auto simp: extract_session_key_def visible_eq init_def)
  have "n = nm"
    using a d by (simp add: result_map_of)
  have "(nm, f) \<in> set (browsers m)"
    using split \<open>n = nm\<close> by simp
  then have "map_of (browsers m) nm = Some f"
    using browsers_distinct [of m] by simp
  then show "\<exists>f cj. map_of (browsers m) nm = Some f \<and> f ''.claude.ai'' = Jar cj None \<and>
               map_of d ''sessionKey'' = last_value ''sessionKey'' cj \<and>
               (map_of d ''organizationId'' = None \<or>
                map_of d ''organizationId'' = last_value ''lastActiveOrg'' cj)"
    using j k d by (auto simp: result_map_of)
qed

theorem accumulators_do_not_leak_witness:
  "stdout (fst (extract_session_key (Some org_only_first))) =
     [[(''sessionKey'', ''sk-firefox''), (''browser'', ''firefox'')]] \<and>
   map_of [(''sessionKey'', ''sk-firefox''), (''browser'', ''firefox'')] ''browser'' =
     Some ''firefox'' \<and>
   (\<exists>f cj. map_of (browsers org_only_first) ''firefox'' = Some f \<and>
      f ''.claude.ai'' = Jar cj None \<and>
      Some ''sk-firefox'' = last_value ''sessionKey'' cj)"
proof -
  let ?d = "[(''sessionKey'', ''sk-firefox''), (''browser'', ''firefox'')]"
  have h1: "stdout (fst (extract_session_key (Some org_only_first))) = [?d]"
    by (simp add: org_only_first_def always_def extract_session_key_def browsers_def
        init_def print_def result_def)
  have h2: "map_of ?d ''browser'' = Some ''firefox''"
    by simp
  have "\<exists>f cj. map_of (browsers org_only_first) ''firefox'' = Some f \<and>
      f ''.claude.ai'' = Jar cj None \<and>
      map_of ?d ''sessionKey'' = last_value ''sessionKey'' cj"
    using accumulators_do_not_leak [where m = org_only_first and d = ?d and nm = "''firefox''"]
      h1 h2
    by blast
  then show ?thesis using h1 h2 by simp
qed

text \<open>
  Claim C9 as it is stated: a cookie whose value is the empty string is treated as absent, a
  \<open>sessionKey\<close> record with empty value does not stop the probe, and a \<open>lastActiveOrg\<close>
  record with empty value has the field left out. It fails where the empty record is not the
  last of its name: Chrome's jar holds an empty \<open>sessionKey\<close> and an empty
  \<open>lastActiveOrg\<close>, each followed by a real one, and the run stops at Chrome and prints
  the field. Nor is an empty record that comes last treated as absent: after a real
  \<open>sessionKey\<close> it overwrites the real value, and the run reports Firefox, where the same
  jar without the empty record reports Chrome.
\<close>

theorem empty_record_counterexample:
  "chrome empty_then_real ''.claude.ai'' =
     Jar [\<lparr>name = ''sessionKey'', val = ''''\<rparr>,
          \<lparr>name = ''sessionKey'', val = ''sk-real''\<rparr>,
          \<lparr>name = ''lastActiveOrg'', val = ''''\<rparr>,
          \<lparr>name = ''lastActiveOrg'', val = ''org-2''\<rparr>] None \<and>
   visible (extract_session_key (Some empty_then_real)) =
     ([[(''sessionKey'', ''sk-real''), (''browser'', ''chrome''),
        (''organizationId'', ''org-2'')]], [''chrome''], Return) \<and>
   chrome real_then_empty ''.claude.ai'' =
     Jar [\<lparr>name = ''sessionKey'', val = ''sk-old''\<rparr>,
          \<lparr>name = ''sessionKey'', val = ''''\<rparr>] None \<and>
   visible (extract_session_key (Some real_then_empty)) =
     ([[(''sessionKey'', ''sk-firefox''), (''browser'', ''firefox'')]],
      [''chrome'', ''firefox''], Return) \<and>
   chrome real_only ''.claude.ai'' = Jar [\<lparr>name = ''sessionKey'', val = ''sk-old''\<rparr>] None \<and>
   visible (extract_session_key (Some real_only)) =
     ([[(''sessionKey'', ''sk-old''), (''browser'', ''chrome'')]], [''chrome''], Return)"
  by (simp add: empty_then_real_def real_then_empty_def real_only_def always_def
      extract_session_key_def browsers_def init_def visible_def print_def result_def)

text \<open>
  Claim C9, amended. When the last-scanned \<open>sessionKey\<close> cookie of a jar has the empty
  string as its value, the iteration goes on with the remaining browsers as if no session
  key had been found. When the session key kept is not empty and the last-scanned
  \<open>lastActiveOrg\<close> cookie has the empty string as its value, the success dict is printed
  without the \<open>organizationId\<close> field, even though the record exists.
\<close>

theorem empty_value_is_absent:
  fixes s :: state
  shows "(f ''.claude.ai'' = Jar cj None \<and> last_value ''sessionKey'' cj = Some [] \<longrightarrow>
            visible (probe ((nm, f) # rest) s) =
              visible (probe rest (s\<lparr>opened := opened s @ [nm]\<rparr>))) \<and>
         (f ''.claude.ai'' = Jar cj None \<and> last_value ''sessionKey'' cj = Some k \<and> k \<noteq> [] \<and>
          last_value ''lastActiveOrg'' cj = Some [] \<longrightarrow>
            visible (probe ((nm, f) # rest) s) =
              (stdout s @ [[(''sessionKey'', k), (''browser'', nm)]], opened s @ [nm], Return))"
proof (intro conjI impI)
  assume "f ''.claude.ai'' = Jar cj None \<and> last_value ''sessionKey'' cj = Some []"
  then have "\<not> yields (f ''.claude.ai'')"
    by (simp add: not_yields_empty)
  then show "visible (probe ((nm, f) # rest) s) =
              visible (probe rest (s\<lparr>opened := opened s @ [nm]\<rparr>))"
    by (rule probe_miss)
next
  assume "f ''.claude.ai'' = Jar cj None \<and> last_value ''sessionKey'' cj = Some k \<and> k \<noteq> [] \<and>
          last_value ''lastActiveOrg'' cj = Some []"
  then show "visible (probe ((nm, f) # rest) s) =
              (stdout s @ [[(''sessionKey'', k), (''browser'', nm)]], opened s @ [nm], Return)"
    using probe_hit [of f cj k nm rest s] by (simp add: result_def)
qed

theorem empty_value_is_absent_witness:
  "chrome empty_key_first ''.claude.ai'' = Jar [\<lparr>name = ''sessionKey'', val = ''''\<rparr>] None \<and>
   last_value ''sessionKey'' [\<lparr>name = ''sessionKey'', val = ''''\<rparr>] = Some [] \<and>
   visible (extract_session_key (Some empty_key_first)) =
     visible (probe [(''firefox'', firefox empty_key_first), (''edge'', edge empty_key_first),
                     (''chromium'', chromium empty_key_first)]
                (init\<lparr>opened := opened init @ [''chrome'']\<rparr>)) \<and>
   chrome empty_org ''.claude.ai'' =
     Jar [\<lparr>name = ''sessionKey'', val = ''sk-chrome''\<rparr>,
          \<lparr>name = ''lastActiveOrg'', val = ''''\<rparr>] None \<and>
   last_value ''lastActiveOrg''
     [\<lparr>name = ''sessionKey'', val = ''sk-chrome''\<rparr>,
      \<lparr>name = ''lastActiveOrg'', val = ''''\<rparr>] = Some [] \<and>
   visible (extract_session_key (Some empty_org)) =
     ([[(''sessionKey'', ''sk-chrome''), (''browser'', ''chrome'')]], [''chrome''], Return)"
proof -
  let ?cj1 = "[\<lparr>name = ''sessionKey'', val = ''''\<rparr>]"
  let ?rest1 = "[(''firefox'', firefox empty_key_first), (''edge'', edge empty_key_first),
                 (''chromium'', chromium empty_key_first)]"
  let ?cj2 = "[\<lparr>name = ''sessionKey'', val = ''sk-chrome''\<rparr>,
               \<lparr>name = ''lastActiveOrg'', val = ''''\<rparr>]"
  let ?rest2 = "[(''firefox'', firefox empty_org), (''edge'', edge empty_org),
                 (''chromium'', chromium empty_org)]"
  have a1: "chrome empty_key_first ''.claude.ai'' = Jar ?cj1 None"
    by (simp add: empty_key_first_def always_def)
  have a2: "last_value ''sessionKey'' ?cj1 = Some []"
    by (simp add: last_value_def)
  have e1: "extract_session_key (Some empty_key_first) =
              probe ((''chrome'', chrome empty_key_first) # ?rest1) init"
    by (simp add: extract_session_key_def browsers_def)
  have b1: "chrome empty_org ''.claude.ai'' = Jar ?cj2 None"
    by (simp add: empty_org_def always_def)
  have b2: "last_value ''sessionKey'' ?cj2 = Some ''sk-chrome''"
    by (simp add: last_value_def)
  have b3: "''sk-chrome'' \<noteq> []"
    by simp
  have b4: "last_value ''lastActiveOrg'' ?cj2 = Some []"
    by (simp add: last_value_def)
  have e2: "extract_session_key (Some empty_org) =
              probe ((''chrome'', chrome empty_org) # ?rest2) init"
    by (simp add: extract_session_key_def browsers_def)
  have r1: "visible (probe ((''chrome'', chrome empty_key_first) # ?rest1) init) =
            visible (probe ?rest1 (init\<lparr>opened := opened init @ [''chrome'']\<rparr>))"
    using empty_value_is_absent
      [where f = "chrome empty_key_first" and cj = ?cj1 and nm = "''chrome''"
         and rest = ?rest1 and s = init] a1 a2
    by blast
  have r2: "visible (probe ((''chrome'', chrome empty_org) # ?rest2) init) =
            (stdout init @ [[(''sessionKey'', ''sk-chrome''), (''browser'', ''chrome'')]],
             opened init @ [''chrome''], Return)"
    using empty_value_is_absent
      [where f = "chrome empty_org" and cj = ?cj2 and k = "''sk-chrome''" and nm = "''chrome''"
         and rest = ?rest2 and s = init] b1 b2 b3 b4
    by blast
  have i: "stdout init = []" "opened init = []"
    by (simp_all add: init_def)
  show ?thesis
    using a1 a2 b1 b4 r1 r2 unfolding e1 e2 i by simp
qed

text \<open>
  Claim C10. When the iteration of a jar raises after some cookies have been scanned, what
  the run shows is what the remaining browsers give: the cookies scanned so far have no
  effect on it. Whenever a success dict is printed, some browser of the list returned a jar
  whose scan ended without an error, and the dict is built from the last values of that
  one jar.
\<close>

theorem scan_error_discards_values:
  fixes s :: state
  shows "(f ''.claude.ai'' = Jar cj (Some e) \<longrightarrow>
            visible (probe ((nm, f) # rest) s) =
              visible (probe rest (s\<lparr>opened := opened s @ [nm]\<rparr>))) \<and>
         (stdout (fst (extract_session_key (Some m))) = [d] \<and> ''sessionKey'' \<in> set (keys d) \<longrightarrow>
            (\<exists>n g cj' k. map_of (browsers m) n = Some g \<and> g ''.claude.ai'' = Jar cj' None \<and>
               last_value ''sessionKey'' cj' = Some k \<and>
               d = result k n (last_value ''lastActiveOrg'' cj')))"
proof (intro conjI impI)
  assume "f ''.claude.ai'' = Jar cj (Some e)"
  then have "\<not> yields (f ''.claude.ai'')"
    by (simp add: not_yields_scan_error)
  then show "visible (probe ((nm, f) # rest) s) =
              visible (probe rest (s\<lparr>opened := opened s @ [nm]\<rparr>))"
    by (rule probe_miss)
next
  assume a: "stdout (fst (extract_session_key (Some m))) = [d] \<and> ''sessionKey'' \<in> set (keys d)"
  have nf: "''sessionKey'' \<notin> set (keys not_found)"
    by (simp add: not_found_def keys_def)
  from probe_outcome [of "browsers m" init]
  obtain pre n g post cj' k where split: "browsers m = pre @ (n, g) # post"
    and j: "g ''.claude.ai'' = Jar cj' None"
    and k: "last_value ''sessionKey'' cj' = Some k"
    and d: "d = result k n (last_value ''lastActiveOrg'' cj')"
    using a nf by (auto simp: extract_session_key_def visible_eq init_def)
  have "(n, g) \<in> set (browsers m)"
    using split by simp
  then have "map_of (browsers m) n = Some g"
    using browsers_distinct [of m] by simp
  then show "\<exists>n g cj' k. map_of (browsers m) n = Some g \<and> g ''.claude.ai'' = Jar cj' None \<and>
               last_value ''sessionKey'' cj' = Some k \<and>
               d = result k n (last_value ''lastActiveOrg'' cj')"
    using j k d by blast
qed

theorem scan_error_discards_values_witness:
  "chrome broken_scan ''.claude.ai'' =
     Jar [\<lparr>name = ''sessionKey'', val = ''sk-chrome''\<rparr>,
          \<lparr>name = ''lastActiveOrg'', val = ''org-chrome''\<rparr>] (Some OtherException) \<and>
   visible (extract_session_key (Some broken_scan)) =
     visible (probe [(''firefox'', firefox broken_scan), (''edge'', edge broken_scan),
                     (''chromium'', chromium broken_scan)]
                (init\<lparr>opened := opened init @ [''chrome'']\<rparr>)) \<and>
   stdout (fst (extract_session_key (Some broken_scan))) =
     [[(''sessionKey'', ''sk-firefox''), (''browser'', ''firefox'')]] \<and>
   ''sessionKey'' \<in> set (keys [(''sessionKey'', ''sk-firefox''), (''browser'', ''firefox'')]) \<and>
   (\<exists>n g cj' k. map_of (browsers broken_scan) n = Some g \<and> g ''.claude.ai'' = Jar cj' None \<and>
      last_value ''sessionKey'' cj' = Some k \<and>
      [(''sessionKey'', ''sk-firefox''), (''browser'', ''firefox'')] =
        result k n (last_value ''lastActiveOrg'' cj'))"
proof -
  let ?cj = "[\<lparr>name = ''sessionKey'', val = ''sk-chrome''\<rparr>,
              \<lparr>name = ''lastActiveOrg'', val = ''org-chrome''\<rparr>]"
  let ?rest = "[(''firefox'', firefox broken_scan), (''edge'', edge broken_scan),
                (''chromium'', chromium broken_scan)]"
  let ?d = "[(''sessionKey'', ''sk-firefox''), (''browser'', ''firefox'')]"
  have h1: "chrome broken_scan ''.claude.ai'' = Jar ?cj (Some OtherException)"
    by (simp add: broken_scan_def always_def)
  have e: "extract_session_key (Some broken_scan) =
             probe ((''chrome'', chrome broken_scan) # ?rest) init"
    by (simp add: extract_session_key_def browsers_def)
  have h2: "stdout (fst (extract_session_key (Some broken_scan))) = [?d]"
    by (simp add: broken_scan_def always_def extract_session_key_def browsers_def
        init_def print_def result_def)
  have h3: "''sessionKey'' \<in> set (keys ?d)"
    by (simp add: keys_def)
  note T = scan_error_discards_values
      [where f = "chrome broken_scan" and cj = ?cj and e = OtherException and nm = "''chrome''"
         and rest = ?rest and s = init and m = broken_scan and d = ?d]
  have r1: "visible (probe ((''chrome'', chrome broken_scan) # ?rest) init) =
            visible (probe ?rest (init\<lparr>opened := opened init @ [''chrome'']\<rparr>))"
    using T h1 by blast
  have r2: "\<exists>n g cj' k. map_of (browsers broken_scan) n = Some g \<and> g ''.claude.ai'' = Jar cj' None \<and>
      last_value ''sessionKey'' cj' = Some k \<and> ?d = result k n (last_value ''lastActiveOrg'' cj')"
    using T h2 h3 by blast
  show ?thesis
    using h1 h2 h3 r1 r2 unfolding e by blast
qed

end
